theory Spec2Isabelle
  imports Main
begin

section \<open>The launcher of the importer executable\<close>

text \<open>
  The program is \<^verbatim>\<open>plugin/importer_launcher.py\<close>: one function, \<^verbatim>\<open>launch_importer\<close>,
  and one call of it at module level. The function resolves a path next to the script,
  tests that something exists there, starts it as a child process with the environment
  of the launcher, waits for it and leaves with its exit code.

  The function is straight-line code over library calls, so the embedding has two layers:
  the library calls it makes (\<^verbatim>\<open>os.path\<close>, \<^verbatim>\<open>print\<close>, \<^verbatim>\<open>sys.exit\<close>,
  \<^verbatim>\<open>subprocess.Popen\<close>, \<^verbatim>\<open>Popen.wait\<close>, \<^verbatim>\<open>os.environ.update\<close>), each a
  definition below, and the function itself, statement by statement, in a state and
  exception monad. The operating system is a POSIX one: \<^verbatim>\<open>os.path\<close> is CPython's
  \<^verbatim>\<open>posixpath\<close>, and an exit status is eight bits. Strings are character lists.
\<close>

subsection \<open>String helpers of Python\<close>

definition sep :: string where
  "sep = ''/''"

text \<open>\<^verbatim>\<open>s.startswith(p)\<close> and \<^verbatim>\<open>s.endswith(p)\<close>.\<close>

definition startswith :: "string \<Rightarrow> string \<Rightarrow> bool" where
  "startswith s p = (take (length p) s = p)"

definition endswith :: "string \<Rightarrow> string \<Rightarrow> bool" where
  "endswith s p = (length p \<le> length s \<and> drop (length s - length p) s = p)"

text \<open>\<^verbatim>\<open>s.rstrip('/')\<close>: the trailing separators removed.\<close>

definition rstrip_sep :: "string \<Rightarrow> string" where
  "rstrip_sep s = rev (dropWhile (\<lambda>c. c = CHR ''/'') (rev s))"

text \<open>
  \<^verbatim>\<open>s.rfind('/') + 1\<close>: the length of the prefix that ends with the last separator,
  0 when there is none (\<^verbatim>\<open>rfind\<close> returns -1 then).
\<close>

definition rfind_sep_plus1 :: "string \<Rightarrow> nat" where
  "rfind_sep_plus1 s = length s - length (takeWhile (\<lambda>c. c \<noteq> CHR ''/'') (rev s))"

text \<open>\<^verbatim>\<open>s.split('/')\<close>: never empty; \<^verbatim>\<open>''.split('/') == ['']\<close>.\<close>

fun split_sep :: "string \<Rightarrow> string list" where
  "split_sep [] = [[]]"
| "split_sep (c # cs) =
     (if c = CHR ''/'' then [] # split_sep cs
      else (case split_sep cs of
              [] \<Rightarrow> [[c]]
            | x # xs \<Rightarrow> (c # x) # xs))"

text \<open>\<^verbatim>\<open>'/'.join(comps)\<close>.\<close>

fun sep_join :: "string list \<Rightarrow> string" where
  "sep_join [] = []"
| "sep_join [x] = x"
| "sep_join (x # y # ys) = x @ sep @ sep_join (y # ys)"

subsection \<open>\<^verbatim>\<open>os.path\<close> as \<^verbatim>\<open>posixpath\<close>\<close>

text \<open>
  \<^verbatim>\<open>
  def isabs(s):
      return s.startswith(sep)
  \<close>
\<close>

definition os_path_isabs :: "string \<Rightarrow> bool" where
  "os_path_isabs s = startswith s sep"

text \<open>
  \<^verbatim>\<open>
  def join(a, *p):
      path = a
      for b in p:
          if b.startswith(sep):
              path = b
          elif not path or path.endswith(sep):
              path += b
          else:
              path += sep + b
      return path
  \<close>
  \<open>join_step\<close> is the body of the loop, \<open>os_path_join\<close> the loop over the
  parts.
\<close>

definition join_step :: "string \<Rightarrow> string \<Rightarrow> string" where
  "join_step path b =
     (if startswith b sep then b
      else if path = [] \<or> endswith path sep then path @ b
      else path @ sep @ b)"

definition os_path_join :: "string \<Rightarrow> string list \<Rightarrow> string" where
  "os_path_join a p = foldl join_step a p"

text \<open>
  \<^verbatim>\<open>
  def dirname(p):
      i = p.rfind(sep) + 1
      head = p[:i]
      if head and head != sep*len(head):
          head = head.rstrip(sep)
      return head
  \<close>
\<close>

definition os_path_dirname :: "string \<Rightarrow> string" where
  "os_path_dirname p =
     (let i = rfind_sep_plus1 p;
          head = take i p
      in if head \<noteq> [] \<and> head \<noteq> replicate (length head) (CHR ''/'')
         then rstrip_sep head else head)"

text \<open>
  \<^verbatim>\<open>
  def normpath(path):
      if path == empty:
          return dot
      initial_slashes = path.startswith(sep)
      if (initial_slashes and
          path.startswith(sep*2) and not path.startswith(sep*3)):
          initial_slashes = 2
      comps = path.split(sep)
      new_comps = []
      for comp in comps:
          if comp in (empty, dot):
              continue
          if (comp != dotdot or (not initial_slashes and not new_comps) or
               (new_comps and new_comps[-1] == dotdot)):
              new_comps.append(comp)
          elif new_comps:
              new_comps.pop()
      comps = new_comps
      path = sep.join(comps)
      if initial_slashes:
          path = sep*initial_slashes + path
      return path or dot
  \<close>
  \<open>initial_slashes\<close> is the number 0, 1 or 2 the variable of that name ends with,
  \<open>normpath_step\<close> the body of the loop (its \<open>cmp\<close> is the loop variable
  \<^verbatim>\<open>comp\<close>).
\<close>

definition initial_slashes :: "string \<Rightarrow> nat" where
  "initial_slashes path =
     (if startswith path sep then
        (if startswith path (sep @ sep) \<and> \<not> startswith path (sep @ sep @ sep) then 2 else 1)
      else 0)"

definition normpath_step :: "nat \<Rightarrow> string list \<Rightarrow> string \<Rightarrow> string list" where
  "normpath_step slashes new_comps cmp =
     (if cmp = [] \<or> cmp = ''.'' then new_comps
      else if cmp \<noteq> ''..'' \<or> (slashes = 0 \<and> new_comps = [])
                \<or> (new_comps \<noteq> [] \<and> last new_comps = ''..'')
           then new_comps @ [cmp]
      else if new_comps \<noteq> [] then butlast new_comps
      else new_comps)"

definition os_path_normpath :: "string \<Rightarrow> string" where
  "os_path_normpath path =
     (if path = [] then ''.''
      else
        (let slashes = initial_slashes path;
             comps = foldl (normpath_step slashes) [] (split_sep path);
             path' = concat (replicate slashes sep) @ sep_join comps
         in if path' = [] then ''.'' else path'))"

text \<open>
  \<^verbatim>\<open>
  def abspath(path):
      if not isabs(path):
          cwd = os.getcwd()
          path = join(cwd, path)
      return normpath(path)
  \<close>
  The working directory is an argument.
\<close>

definition os_path_abspath :: "string \<Rightarrow> string \<Rightarrow> string" where
  "os_path_abspath cwd path =
     os_path_normpath (if \<not> os_path_isabs path then os_path_join cwd [path] else path)"

subsection \<open>The world the launcher runs in\<close>

text \<open>
  \<^verbatim>\<open>os.environ\<close> is a mapping from names to values. At a path of the file system
  \<^verbatim>\<open>os.stat\<close> finds nothing, a directory, a file the operating system cannot run, or
  an executable; an executable is given by what a run of it does with the environment
  it is started in: the number \<^verbatim>\<open>Popen.wait\<close> returns for it, or \<open>None\<close> when it
  never terminates. That number is the exit code, from 0 to 255, of a child that
  exited, and \<open>- s\<close> for a child that the signal \<open>s\<close> killed.
\<close>

type_synonym environment = "string \<rightharpoonup> string"

datatype node =
    Directory
  | DataFile
  | Executable "environment \<Rightarrow> int option"

text \<open>
  What an invocation is given: the module's \<^verbatim>\<open>__file__\<close>, the working directory
  (\<^verbatim>\<open>os.getcwd()\<close>), the argument vector (\<^verbatim>\<open>sys.argv\<close>), the environment at the
  start and the file system.
\<close>

record world =
  dunder_file :: string
  getcwd :: string
  argv :: "string list"
  os_environ :: environment
  fs :: "string \<rightharpoonup> node"

text \<open>
  Every library call with an effect is logged, in order, with its arguments. The state
  of the process is the environment mapping (the one thing the source could change),
  what its statements wrote to the two standard streams, and the log.
\<close>

datatype call =
    Call_exists string
  | Call_print string
  | Call_exit int
  | Call_Popen string environment
  | Call_wait
  | Call_environ_update

record pstate =
  environ :: environment
  stdout :: string
  stderr :: string
  calls :: "call list"

text \<open>
  A statement returns a value, raises, or never comes back (a \<^verbatim>\<open>wait\<close> on a child
  that runs forever). \<^verbatim>\<open>sys.exit(n)\<close> raises \<^verbatim>\<open>SystemExit(n)\<close>; a failed
  process creation raises \<^verbatim>\<open>OSError\<close>.
\<close>

datatype exn = SystemExit int | OSError

datatype 'a result = Returns 'a | Raises exn | Blocks

type_synonym 'a prog = "pstate \<Rightarrow> 'a result \<times> pstate"

definition ret :: "'a \<Rightarrow> 'a prog" where
  "ret x s = (Returns x, s)"

text \<open>Sequencing: the statements after a raise, or after a call that blocks, do not run.\<close>

definition bind :: "'a prog \<Rightarrow> ('a \<Rightarrow> 'b prog) \<Rightarrow> 'b prog" where
  "bind m f s =
     (case m s of
        (Returns x, s') \<Rightarrow> f x s'
      | (Raises e, s') \<Rightarrow> (Raises e, s')
      | (Blocks, s') \<Rightarrow> (Blocks, s'))"

definition logged :: "call \<Rightarrow> pstate \<Rightarrow> pstate" where
  "logged c s = s\<lparr>calls := calls s @ [c]\<rparr>"

subsection \<open>The library calls\<close>

text \<open>
  \<^verbatim>\<open>os.path.exists(path)\<close>: \<^verbatim>\<open>os.stat\<close> succeeds, whatever kind of node is there.
\<close>

definition os_path_exists :: "world \<Rightarrow> string \<Rightarrow> bool prog" where
  "os_path_exists w path s = (Returns (fs w path \<noteq> None), logged (Call_exists path) s)"

text \<open>\<^verbatim>\<open>print(msg)\<close>: the message and a newline, to standard output.\<close>

definition print :: "string \<Rightarrow> unit prog" where
  "print msg s =
     (Returns (), logged (Call_print msg) (s\<lparr>stdout := stdout s @ msg @ [CHR 0x0A]\<rparr>))"

definition sys_exit :: "int \<Rightarrow> 'a prog" where
  "sys_exit code s = (Raises (SystemExit code), logged (Call_exit code) s)"

definition get_environ :: "environment prog" where
  "get_environ s = (Returns (environ s), s)"

text \<open>
  \<^verbatim>\<open>subprocess.Popen(args, env=env)\<close> with a string for \<^verbatim>\<open>args\<close>: the program at
  that path is started with no argument of its own and with \<open>env\<close> as its whole
  environment. The call raises \<^verbatim>\<open>OSError\<close> when the operating system cannot run what
  is there. The handle it returns knows what \<^verbatim>\<open>wait\<close> will find.
\<close>

datatype popen = Popen (returncode: "int option")

definition subprocess_Popen :: "world \<Rightarrow> string \<Rightarrow> environment \<Rightarrow> popen prog" where
  "subprocess_Popen w args env s =
     (case fs w args of
        Some (Executable program) \<Rightarrow> (Returns (Popen (program env)), logged (Call_Popen args env) s)
      | _ \<Rightarrow> (Raises OSError, logged (Call_Popen args env) s))"

text \<open>\<^verbatim>\<open>process.wait()\<close>: blocks until the child has terminated, then returns its code.\<close>

definition wait :: "popen \<Rightarrow> int prog" where
  "wait process s =
     (case returncode process of
        Some code \<Rightarrow> (Returns code, logged Call_wait s)
      | None \<Rightarrow> (Blocks, logged Call_wait s))"

text \<open>\<^verbatim>\<open>os.environ.update(other)\<close>: the entries of \<open>other\<close> written into the mapping.\<close>

definition os_environ_update :: "environment \<Rightarrow> unit prog" where
  "os_environ_update other s =
     (Returns (), logged Call_environ_update (s\<lparr>environ := environ s ++ other\<rparr>))"

subsection \<open>\<^verbatim>\<open>launch_importer\<close>\<close>

text \<open>
  \<^verbatim>\<open>
  def launch_importer():
      script_dir = os.path.dirname(os.path.abspath(__file__))
      exe_path = os.path.join(script_dir, "bin", "UltralibrarianImporter.exe")
      if not os.path.exists(exe_path):
          print(f"Error: Executable not found at {exe_path}")
          sys.exit(1)
      process = subprocess.Popen(exe_path, env=os.environ)
      return_code = process.wait()
      sys.exit(return_code)
      os.environ.update(os.environ)
  \<close>
  The two assignments are pure; \<open>script_dir\<close> and \<open>exe_path\<close> are their values.
  \<open>launch_from\<close> is the rest of the body, from the test on.
\<close>

definition script_dir :: "world \<Rightarrow> string" where
  "script_dir w = os_path_dirname (os_path_abspath (getcwd w) (dunder_file w))"

definition exe_path :: "world \<Rightarrow> string" where
  "exe_path w = os_path_join (script_dir w) [''bin'', ''UltralibrarianImporter.exe'']"


definition launch_from :: "world \<Rightarrow> string \<Rightarrow> unit prog" where
  "launch_from w path =
     bind (os_path_exists w path) (\<lambda>found.
     bind (if \<not> found
           then bind (print (''Error: Executable not found at '' @ path)) (\<lambda>_. sys_exit 1)
           else ret ()) (\<lambda>_.
     bind get_environ (\<lambda>env.
     bind (subprocess_Popen w path env) (\<lambda>process.
     bind (wait process) (\<lambda>return_code.
     bind (sys_exit return_code) (\<lambda>_ :: unit.
     bind get_environ (\<lambda>env'.
     os_environ_update env')))))))"

definition launch_importer :: "world \<Rightarrow> unit prog" where
  "launch_importer w = launch_from w (exe_path w)"

text \<open>
  The module: after the imports and the \<^verbatim>\<open>def\<close>, its one statement is the call
  \<^verbatim>\<open>launch_importer()\<close>, under no condition. A run starts with nothing written and
  nothing logged.
\<close>

definition importer_launcher :: "world \<Rightarrow> unit prog" where
  "importer_launcher w = bind (launch_importer w) (\<lambda>_. ret ())"

definition initial :: "world \<Rightarrow> pstate" where
  "initial w = \<lparr>environ = os_environ w, stdout = [], stderr = [], calls = []\<rparr>"

definition run :: "world \<Rightarrow> unit result \<times> pstate" where
  "run w = importer_launcher w (initial w)"

text \<open>
  The exit status of the interpreter running the module as its main program, as the
  process that started it observes it on a POSIX system: the low eight bits of the code
  of a \<^verbatim>\<open>SystemExit\<close> (\<^verbatim>\<open>sys.exit(256)\<close> is seen as 0, \<^verbatim>\<open>sys.exit(-9)\<close> as
  247), 1 for any other exception that nobody caught, 0 at the end of the module, and
  none while a call blocks.
\<close>

fun exit_status :: "unit result \<Rightarrow> int option" where
  "exit_status (Returns _) = Some 0"
| "exit_status (Raises (SystemExit code)) = Some (code mod 256)"
| "exit_status (Raises OSError) = Some 1"
| "exit_status Blocks = None"

subsection \<open>The launcher without its last statement\<close>

text \<open>
  The function as it would read with the line \<^verbatim>\<open>os.environ.update(os.environ)\<close>
  deleted, and the module that calls it: the program to compare the source with.
\<close>

definition launch_from_without_update :: "world \<Rightarrow> string \<Rightarrow> unit prog" where
  "launch_from_without_update w path =
     bind (os_path_exists w path) (\<lambda>found.
     bind (if \<not> found
           then bind (print (''Error: Executable not found at '' @ path)) (\<lambda>_. sys_exit 1)
           else ret ()) (\<lambda>_.
     bind get_environ (\<lambda>env.
     bind (subprocess_Popen w path env) (\<lambda>process.
     bind (wait process) (\<lambda>return_code.
     sys_exit return_code)))))"

definition launch_importer_without_update :: "world \<Rightarrow> unit prog" where
  "launch_importer_without_update w = launch_from_without_update w (exe_path w)"

definition run_without_update :: "world \<Rightarrow> unit result \<times> pstate" where
  "run_without_update w =
     bind (launch_importer_without_update w) (\<lambda>_. ret ()) (initial w)"

subsection \<open>Reading the log\<close>

fun is_Popen :: "call \<Rightarrow> bool" where
  "is_Popen (Call_Popen args env) = True"
| "is_Popen c = False"

fun is_wait :: "call \<Rightarrow> bool" where
  "is_wait Call_wait = True"
| "is_wait c = False"

fun is_print :: "call \<Rightarrow> bool" where
  "is_print (Call_print msg) = True"
| "is_print c = False"

subsection \<open>Where the script is\<close>






subsection \<open>A file system with symbolic links\<close>







subsection \<open>Example worlds\<close>

text \<open>
  The launcher installed as \<^verbatim>\<open>/opt/kicad/plugin/importer_launcher.py\<close> and started from
  another directory, with one variable in its environment; the argument says what is
  at \<^verbatim>\<open>/opt/kicad/plugin/bin/UltralibrarianImporter.exe\<close>.
\<close>

definition example_world :: "node option \<Rightarrow> world" where
  "example_world nd =
     \<lparr>dunder_file = ''/opt/kicad/plugin/importer_launcher.py'',
      getcwd = ''/home/user'',
      argv = [''importer_launcher.py''],
      os_environ = [''UL_SESSION'' \<mapsto> ''7''],
      fs = [''/opt/kicad/plugin'' \<mapsto> Directory,
            ''/opt/kicad/plugin/importer_launcher.py'' \<mapsto> DataFile,
            ''/opt/kicad/plugin/bin'' \<mapsto> Directory]
           (''/opt/kicad/plugin/bin/UltralibrarianImporter.exe'' := nd)\<rparr>"

text \<open>A program that exits with 42 when it finds the variable, with 0 otherwise.\<close>

definition example_program :: "environment \<Rightarrow> int option" where
  "example_program env = (if env ''UL_SESSION'' = Some ''7'' then Some 42 else Some 0)"



text \<open>A program that exits with 0.\<close>

definition zero_program :: "environment \<Rightarrow> int option" where
  "zero_program env = Some 0"

text \<open>A program that never terminates.\<close>

definition hanging_program :: "environment \<Rightarrow> int option" where
  "hanging_program env = None"

section \<open>Properties\<close>

subsection \<open>The four runs of the launcher\<close>

lemmas library_calls = bind_def ret_def logged_def os_path_exists_def print_def sys_exit_def
  get_environ_def subprocess_Popen_def wait_def os_environ_update_def

lemma launch_from_missing:
  "fs w path = None \<Longrightarrow>
   launch_from w path s =
     (Raises (SystemExit 1),
      s\<lparr>stdout := stdout s @ ''Error: Executable not found at '' @ path @ [CHR 0x0A],
        calls := calls s @ [Call_exists path,
                            Call_print (''Error: Executable not found at '' @ path),
                            Call_exit 1]\<rparr>)"
  by (simp add: launch_from_def library_calls)

lemma launch_from_exited:
  "fs w path = Some (Executable program) \<Longrightarrow> program (environ s) = Some n \<Longrightarrow>
   launch_from w path s =
     (Raises (SystemExit n),
      s\<lparr>calls := calls s @ [Call_exists path, Call_Popen path (environ s), Call_wait,
                            Call_exit n]\<rparr>)"
  by (simp add: launch_from_def library_calls)

lemma launch_from_blocked:
  "fs w path = Some (Executable program) \<Longrightarrow> program (environ s) = None \<Longrightarrow>
   launch_from w path s =
     (Blocks, s\<lparr>calls := calls s @ [Call_exists path, Call_Popen path (environ s), Call_wait]\<rparr>)"
  by (simp add: launch_from_def library_calls)

lemma launch_from_refused:
  "fs w path = Some nd \<Longrightarrow> nd = Directory \<or> nd = DataFile \<Longrightarrow>
   launch_from w path s =
     (Raises OSError, s\<lparr>calls := calls s @ [Call_exists path, Call_Popen path (environ s)]\<rparr>)"
  by (auto simp add: launch_from_def library_calls)

lemma run_missing:
  "fs w (exe_path w) = None \<Longrightarrow>
   run w =
     (Raises (SystemExit 1),
      \<lparr>environ = os_environ w,
       stdout = ''Error: Executable not found at '' @ exe_path w @ [CHR 0x0A],
       stderr = [],
       calls = [Call_exists (exe_path w),
                Call_print (''Error: Executable not found at '' @ exe_path w),
                Call_exit 1]\<rparr>)"
  by (simp add: run_def importer_launcher_def launch_importer_def initial_def
      launch_from_missing bind_def)

lemma run_exited:
  "fs w (exe_path w) = Some (Executable program) \<Longrightarrow> program (os_environ w) = Some n \<Longrightarrow>
   run w =
     (Raises (SystemExit n),
      \<lparr>environ = os_environ w, stdout = [], stderr = [],
       calls = [Call_exists (exe_path w), Call_Popen (exe_path w) (os_environ w), Call_wait,
                Call_exit n]\<rparr>)"
  by (simp add: run_def importer_launcher_def launch_importer_def initial_def
      launch_from_exited bind_def)

lemma run_blocked:
  "fs w (exe_path w) = Some (Executable program) \<Longrightarrow> program (os_environ w) = None \<Longrightarrow>
   run w =
     (Blocks,
      \<lparr>environ = os_environ w, stdout = [], stderr = [],
       calls = [Call_exists (exe_path w), Call_Popen (exe_path w) (os_environ w), Call_wait]\<rparr>)"
  by (simp add: run_def importer_launcher_def launch_importer_def initial_def
      launch_from_blocked bind_def)

lemma run_refused:
  "fs w (exe_path w) = Some nd \<Longrightarrow> nd = Directory \<or> nd = DataFile \<Longrightarrow>
   run w =
     (Raises OSError,
      \<lparr>environ = os_environ w, stdout = [], stderr = [],
       calls = [Call_exists (exe_path w), Call_Popen (exe_path w) (os_environ w)]\<rparr>)"
  by (simp add: run_def importer_launcher_def launch_importer_def initial_def
      launch_from_refused bind_def)

text \<open>Every world is in one of the four cases.\<close>

lemma run_cases:
  obtains (missing) "fs w (exe_path w) = None"
  | (refused) nd where "fs w (exe_path w) = Some nd" "nd = Directory \<or> nd = DataFile"
  | (exited) program n where "fs w (exe_path w) = Some (Executable program)"
      "program (os_environ w) = Some n"
  | (blocked) program where "fs w (exe_path w) = Some (Executable program)"
      "program (os_environ w) = None"
proof (cases "fs w (exe_path w)")
  case None
  then show ?thesis by (rule missing)
next
  case (Some nd)
  show ?thesis
  proof (cases nd)
    case Directory
    with Some show ?thesis by (auto intro: refused)
  next
    case DataFile
    with Some show ?thesis by (auto intro: refused)
  next
    case (Executable program)
    with Some show ?thesis by (cases "program (os_environ w)") (auto intro: exited blocked)
  qed
qed

text \<open>Nothing runs after \<^verbatim>\<open>sys.exit\<close>.\<close>

lemma bind_sys_exit: "bind (sys_exit code) f = sys_exit code"
  by (rule ext) (simp add: bind_def sys_exit_def)

lemma launch_from_eq: "launch_from w path = launch_from_without_update w path"
  by (simp add: launch_from_def launch_from_without_update_def bind_sys_exit)

lemma bind_ret: "bind m ret = m"
proof (rule ext)
  fix s
  obtain r s' where m: "m s = (r, s')"
    by (cases "m s")
  then show "bind m ret s = m s"
    by (cases r) (simp_all add: bind_def ret_def)
qed

text \<open>The library calls that take the world read its file system only.\<close>

lemma os_path_exists_argv: "os_path_exists (w\<lparr>argv := args\<rparr>) = os_path_exists w"
  by (intro ext) (simp add: os_path_exists_def)

lemma subprocess_Popen_argv: "subprocess_Popen (w\<lparr>argv := args\<rparr>) = subprocess_Popen w"
  by (intro ext) (simp add: subprocess_Popen_def)

lemma launch_from_argv: "launch_from (w\<lparr>argv := args\<rparr>) path = launch_from w path"
  by (simp add: launch_from_def os_path_exists_argv subprocess_Popen_argv)

text \<open>The path the example worlds resolve, computed by the path functions.\<close>

lemma example_path:
  "os_path_join (os_path_dirname
       (os_path_abspath ''/home/user'' ''/opt/kicad/plugin/importer_launcher.py''))
     [''bin'', ''UltralibrarianImporter.exe'']
   = ''/opt/kicad/plugin/bin/UltralibrarianImporter.exe''"
  by code_simp

lemma exe_path_example:
  "exe_path (example_world nd) = ''/opt/kicad/plugin/bin/UltralibrarianImporter.exe''"
  by (simp add: exe_path_def script_dir_def example_world_def example_path)

lemma fs_example:
  "fs (example_world nd) ''/opt/kicad/plugin/bin/UltralibrarianImporter.exe'' = nd"
  by (simp add: example_world_def)

lemma os_environ_example: "os_environ (example_world nd) = [''UL_SESSION'' \<mapsto> ''7'']"
  by (simp add: example_world_def)

subsection \<open>What the path functions do\<close>























subsection \<open>Exit code passthrough\<close>

text \<open>
  C1. When an executable is at the resolved path and the child started from it
  terminates with the exit code \<open>N\<close>, a number from 0 to 255, the launcher raises
  \<^verbatim>\<open>SystemExit(N)\<close> and its own process ends with exit status exactly \<open>N\<close>; with 0
  when the child exits with 0. Whatever number \<^verbatim>\<open>wait\<close> returns, the launcher raises
  \<^verbatim>\<open>SystemExit\<close> with it, and the status is its low eight bits.
\<close>

theorem exit_code_passthrough:
  assumes "fs w (exe_path w) = Some (Executable program)"
    and "program (os_environ w) = Some N"
  shows "fst (run w) = Raises (SystemExit N)
       \<and> exit_status (fst (run w)) = Some (N mod 256)
       \<and> (0 \<le> N \<and> N < 256 \<longrightarrow> exit_status (fst (run w)) = Some N)"
  using run_exited [OF assms] by simp

theorem exit_code_passthrough_witness:
  "fs (example_world (Some (Executable zero_program)))
      (exe_path (example_world (Some (Executable zero_program))))
     = Some (Executable zero_program)
   \<and> zero_program (os_environ (example_world (Some (Executable zero_program)))) = Some 0
   \<and> fst (run (example_world (Some (Executable zero_program)))) = Raises (SystemExit 0)
   \<and> exit_status (fst (run (example_world (Some (Executable zero_program))))) = Some 0
   \<and> example_program (os_environ (example_world (Some (Executable example_program)))) = Some 42
   \<and> exit_status (fst (run (example_world (Some (Executable example_program))))) = Some 42"
proof -
  let ?w = "example_world (Some (Executable zero_program))"
  let ?v = "example_world (Some (Executable example_program))"
  have found: "fs ?w (exe_path ?w) = Some (Executable zero_program)"
    by (simp add: exe_path_example fs_example)
  have code: "zero_program (os_environ ?w) = Some 0"
    by (simp add: zero_program_def)
  have found': "fs ?v (exe_path ?v) = Some (Executable example_program)"
    by (simp add: exe_path_example fs_example)
  have code': "example_program (os_environ ?v) = Some 42"
    by (simp add: os_environ_example example_program_def)
  from exit_code_passthrough [OF found code] exit_code_passthrough [OF found' code']
    found code code'
  show ?thesis
    by simp
qed

subsection \<open>The missing executable\<close>

text \<open>
  C2. When nothing exists at the resolved path, the launcher makes no call of
  \<^verbatim>\<open>Popen\<close>, prints one message, which ends with the resolved path, and raises
  \<^verbatim>\<open>SystemExit(1)\<close>: its exit status is 1. The message is what the run writes to
  standard output, followed by the newline of \<^verbatim>\<open>print\<close>.
\<close>

theorem missing_executable:
  assumes "fs w (exe_path w) = None"
  shows "(\<forall>args env. Call_Popen args env \<notin> set (calls (snd (run w))))
       \<and> filter is_print (calls (snd (run w)))
           = [Call_print (''Error: Executable not found at '' @ exe_path w)]
       \<and> stdout (snd (run w)) = ''Error: Executable not found at '' @ exe_path w @ [CHR 0x0A]
       \<and> fst (run w) = Raises (SystemExit 1)
       \<and> exit_status (fst (run w)) = Some 1"
  using run_missing [OF assms] by simp

theorem missing_executable_witness:
  "fs (example_world None) (exe_path (example_world None)) = None
   \<and> (\<forall>args env. Call_Popen args env \<notin> set (calls (snd (run (example_world None)))))
   \<and> filter is_print (calls (snd (run (example_world None))))
       = [Call_print
            ''Error: Executable not found at /opt/kicad/plugin/bin/UltralibrarianImporter.exe'']
   \<and> stdout (snd (run (example_world None)))
       = ''Error: Executable not found at /opt/kicad/plugin/bin/UltralibrarianImporter.exe''
         @ [CHR 0x0A]
   \<and> exit_status (fst (run (example_world None))) = Some 1"
proof -
  have missing: "fs (example_world None) (exe_path (example_world None)) = None"
    by (simp add: exe_path_example fs_example)
  from missing_executable [OF missing] missing show ?thesis
    by (simp add: exe_path_example)
qed

subsection \<open>What the existence test lets through\<close>

text \<open>
  C3, as the code has it. The test is \<^verbatim>\<open>os.path.exists\<close>, not a test for a regular
  file. When nothing exists at the resolved path the launcher writes the diagnostic,
  ends with exit status 1 and calls \<^verbatim>\<open>Popen\<close> not at all. When anything exists there,
  a directory as well as a file, it writes no diagnostic and calls \<^verbatim>\<open>Popen\<close> on the
  path, once. The missing path is the one condition the launcher handles.
\<close>

theorem only_missing_is_handled:
  "(fs w (exe_path w) = None \<longrightarrow>
      stdout (snd (run w)) = ''Error: Executable not found at '' @ exe_path w @ [CHR 0x0A]
      \<and> exit_status (fst (run w)) = Some 1
      \<and> filter is_Popen (calls (snd (run w))) = [])
   \<and> (fs w (exe_path w) \<noteq> None \<longrightarrow>
      stdout (snd (run w)) = []
      \<and> filter is_Popen (calls (snd (run w))) = [Call_Popen (exe_path w) (os_environ w)])"
  by (cases w rule: run_cases)
    (simp_all add: run_missing run_refused run_exited run_blocked)

theorem only_missing_is_handled_witness:
  "fs (example_world None) (exe_path (example_world None)) = None
   \<and> stdout (snd (run (example_world None)))
       = ''Error: Executable not found at /opt/kicad/plugin/bin/UltralibrarianImporter.exe''
         @ [CHR 0x0A]
   \<and> exit_status (fst (run (example_world None))) = Some 1
   \<and> filter is_Popen (calls (snd (run (example_world None)))) = []
   \<and> fs (example_world (Some Directory)) (exe_path (example_world (Some Directory))) \<noteq> None
   \<and> stdout (snd (run (example_world (Some Directory)))) = []
   \<and> filter is_Popen (calls (snd (run (example_world (Some Directory)))))
       = [Call_Popen ''/opt/kicad/plugin/bin/UltralibrarianImporter.exe''
            [''UL_SESSION'' \<mapsto> ''7'']]"
  using only_missing_is_handled [of "example_world None"]
    only_missing_is_handled [of "example_world (Some Directory)"]
  by (simp add: exe_path_example fs_example os_environ_example)

text \<open>
  The claim as written fails where the path names a directory: no diagnostic is
  written and \<^verbatim>\<open>Popen\<close> is called on the directory; the run ends with the
  \<^verbatim>\<open>OSError\<close> of that call.
\<close>

theorem directory_is_launched:
  "fs (example_world (Some Directory)) (exe_path (example_world (Some Directory)))
     = Some Directory
   \<and> stdout (snd (run (example_world (Some Directory)))) = []
   \<and> calls (snd (run (example_world (Some Directory))))
       = [Call_exists ''/opt/kicad/plugin/bin/UltralibrarianImporter.exe'',
          Call_Popen ''/opt/kicad/plugin/bin/UltralibrarianImporter.exe''
            (os_environ (example_world (Some Directory)))]
   \<and> fst (run (example_world (Some Directory))) = Raises OSError"
proof -
  have there: "fs (example_world (Some Directory)) (exe_path (example_world (Some Directory)))
      = Some Directory"
    by (simp add: exe_path_example fs_example)
  from run_refused [OF there] there show ?thesis
    by (simp add: exe_path_example)
qed

subsection \<open>Path resolution\<close>









subsection \<open>The environment of the child\<close>

text \<open>
  C5. Whenever \<^verbatim>\<open>Popen\<close> is called, the environment it is given is the mapping
  \<^verbatim>\<open>os.environ\<close> of the launcher as it was at the start: the same names with the
  same values, nothing added and nothing removed. The program started runs on that
  mapping (the launcher ends with what the program does on it: \<^verbatim>\<open>SystemExit\<close> with
  the number the program ends with there, or a wait that does not come back), and the
  launcher's own mapping is unchanged at the end.
\<close>

theorem environment_passthrough:
  "(Call_Popen args env \<in> set (calls (snd (run w))) \<longrightarrow> env = os_environ w)
   \<and> (fs w (exe_path w) = Some (Executable program) \<longrightarrow>
        fst (run w) = (case program (os_environ w) of
                         None \<Rightarrow> Blocks
                       | Some n \<Rightarrow> Raises (SystemExit n)))
   \<and> environ (snd (run w)) = os_environ w"
  by (cases w rule: run_cases)
    (auto simp add: run_missing run_refused run_exited run_blocked)

theorem environment_passthrough_witness:
  "Call_Popen ''/opt/kicad/plugin/bin/UltralibrarianImporter.exe'' [''UL_SESSION'' \<mapsto> ''7'']
     \<in> set (calls (snd (run (example_world (Some (Executable example_program))))))
   \<and> [''UL_SESSION'' \<mapsto> ''7''] = os_environ (example_world (Some (Executable example_program)))
   \<and> fs (example_world (Some (Executable example_program)))
        (exe_path (example_world (Some (Executable example_program))))
       = Some (Executable example_program)
   \<and> example_program (os_environ (example_world (Some (Executable example_program)))) = Some 42
   \<and> fst (run (example_world (Some (Executable example_program)))) = Raises (SystemExit 42)"
proof -
  let ?w = "example_world (Some (Executable example_program))"
  have found: "fs ?w (exe_path ?w) = Some (Executable example_program)"
    by (simp add: exe_path_example fs_example)
  have code: "example_program (os_environ ?w) = Some 42"
    by (simp add: os_environ_example example_program_def)
  have called: "Call_Popen ''/opt/kicad/plugin/bin/UltralibrarianImporter.exe''
      [''UL_SESSION'' \<mapsto> ''7''] \<in> set (calls (snd (run ?w)))"
    by (simp add: run_exited [OF found code] exe_path_example os_environ_example)
  from environment_passthrough
    [of "''/opt/kicad/plugin/bin/UltralibrarianImporter.exe''" "[''UL_SESSION'' \<mapsto> ''7'']"
      ?w example_program]
    found code called
  show ?thesis
    by simp
qed

subsection \<open>The statement after \<^verbatim>\<open>sys.exit\<close>\<close>

text \<open>
  C6. The statement \<^verbatim>\<open>os.environ.update(os.environ)\<close> never runs: no log of a run
  holds its call. The launcher is the same program as the launcher without that
  statement, from every state it is started in, so the two agree on what is spawned,
  what is written and the exit status; and the environment mapping at the end is the
  one of the start.
\<close>

theorem update_is_dead:
  "launch_importer w = launch_importer_without_update w
   \<and> run w = run_without_update w
   \<and> Call_environ_update \<notin> set (calls (snd (run w)))
   \<and> environ (snd (run w)) = os_environ w"
proof -
  have same: "launch_importer w = launch_importer_without_update w"
    by (simp add: launch_importer_def launch_importer_without_update_def launch_from_eq)
  have runs: "run w = run_without_update w"
    by (simp add: run_def run_without_update_def importer_launcher_def same)
  have "Call_environ_update \<notin> set (calls (snd (run w))) \<and> environ (snd (run w)) = os_environ w"
    by (cases w rule: run_cases)
      (simp_all add: run_missing run_refused run_exited run_blocked)
  with same runs show ?thesis by simp
qed

theorem update_is_dead_witness:
  "run (example_world (Some (Executable example_program)))
     = run_without_update (example_world (Some (Executable example_program)))
   \<and> Call_environ_update
       \<notin> set (calls (snd (run (example_world (Some (Executable example_program))))))
   \<and> environ (snd (run (example_world (Some (Executable example_program)))))
       = [''UL_SESSION'' \<mapsto> ''7'']"
proof -
  note dead = update_is_dead [of "example_world (Some (Executable example_program))"]
  have "environ (snd (run (example_world (Some (Executable example_program)))))
      = [''UL_SESSION'' \<mapsto> ''7'']"
    using dead [THEN conjunct2, THEN conjunct2, THEN conjunct2]
    by (simp only: os_environ_example)
  with dead [THEN conjunct2, THEN conjunct1]
    dead [THEN conjunct2, THEN conjunct2, THEN conjunct1]
  show ?thesis
    by (intro conjI)
qed

subsection \<open>The argument vector\<close>

text \<open>
  C7. The launcher does not read its arguments: two invocations that differ in the
  argument vector only have the same run, that is the same result, the same output and
  the same calls with the same arguments.
\<close>

theorem argv_is_not_read: "run (w\<lparr>argv := args\<rparr>) = run w"
  by (simp add: run_def importer_launcher_def launch_importer_def launch_from_argv
      exe_path_def script_dir_def initial_def)

theorem argv_is_not_read_witness:
  "run ((example_world (Some (Executable example_program)))
          \<lparr>argv := [''importer_launcher.py'', ''--verbose'', ''x'']\<rparr>)
     = run (example_world (Some (Executable example_program)))
   \<and> exit_status (fst (run ((example_world (Some (Executable example_program)))
          \<lparr>argv := [''importer_launcher.py'', ''--verbose'', ''x'']\<rparr>))) = Some 42"
proof -
  let ?w = "example_world (Some (Executable example_program))"
  have found: "fs ?w (exe_path ?w) = Some (Executable example_program)"
    by (simp add: exe_path_example fs_example)
  have code: "example_program (os_environ ?w) = Some 42"
    by (simp add: os_environ_example example_program_def)
  have "exit_status (fst (run ?w)) = Some 42"
    by (simp add: run_exited [OF found code])
  with argv_is_not_read [where w = ?w and args = "[''importer_launcher.py'', ''--verbose'', ''x'']"]
  show ?thesis
    by simp
qed

subsection \<open>One pass, no loop\<close>

text \<open>
  C8. A run calls \<^verbatim>\<open>Popen\<close> at most once, \<^verbatim>\<open>wait\<close> at most once and
  \<^verbatim>\<open>print\<close> at most once, and its calls are one of four sequences: the test, the
  diagnostic and the exit; the test and a \<^verbatim>\<open>Popen\<close> that raises; the test, the
  \<^verbatim>\<open>Popen\<close> and a \<^verbatim>\<open>wait\<close> that does not come back; the test, the \<^verbatim>\<open>Popen\<close>,
  the \<^verbatim>\<open>wait\<close> and the exit. Each is the sequence resolve, test, then fail or
  launch, wait and propagate, or the beginning of it; no call is made twice.
\<close>

theorem linear_control_flow:
  "length (filter is_Popen (calls (snd (run w)))) \<le> 1
   \<and> length (filter is_wait (calls (snd (run w)))) \<le> 1
   \<and> length (filter is_print (calls (snd (run w)))) \<le> 1
   \<and> (calls (snd (run w))
         = [Call_exists (exe_path w),
            Call_print (''Error: Executable not found at '' @ exe_path w), Call_exit 1]
       \<or> calls (snd (run w)) = [Call_exists (exe_path w), Call_Popen (exe_path w) (os_environ w)]
       \<or> calls (snd (run w))
         = [Call_exists (exe_path w), Call_Popen (exe_path w) (os_environ w), Call_wait]
       \<or> (\<exists>n. calls (snd (run w))
         = [Call_exists (exe_path w), Call_Popen (exe_path w) (os_environ w), Call_wait,
            Call_exit n]))"
  by (cases w rule: run_cases)
    (simp_all add: run_missing run_refused run_exited run_blocked)

theorem linear_control_flow_witness:
  "length (filter is_Popen (calls (snd (run (example_world (Some (Executable example_program))))))) = 1
   \<and> length (filter is_wait (calls (snd (run (example_world (Some (Executable example_program))))))) = 1
   \<and> length (filter is_print (calls (snd (run (example_world (Some (Executable example_program))))))) = 0
   \<and> calls (snd (run (example_world (Some (Executable example_program)))))
       = [Call_exists ''/opt/kicad/plugin/bin/UltralibrarianImporter.exe'',
          Call_Popen ''/opt/kicad/plugin/bin/UltralibrarianImporter.exe''
            [''UL_SESSION'' \<mapsto> ''7''],
          Call_wait, Call_exit 42]"
proof -
  let ?w = "example_world (Some (Executable example_program))"
  have found: "fs ?w (exe_path ?w) = Some (Executable example_program)"
    by (simp add: exe_path_example fs_example)
  have code: "example_program (os_environ ?w) = Some 42"
    by (simp add: os_environ_example example_program_def)
  have "fst (run ?w) = Raises (SystemExit 42)"
    by (simp add: run_exited [OF found code])
  moreover have "Call_exit 42 \<in> set (calls (snd (run ?w)))"
    by (simp add: run_exited [OF found code])
  ultimately show ?thesis
    using linear_control_flow [of ?w]
    by (auto simp add: exe_path_example os_environ_example)
qed

subsection \<open>Importing the module\<close>

text \<open>
  C9, as the code has it. The module calls \<^verbatim>\<open>launch_importer\<close> under no condition
  (running the module is running the function), and the call never returns normally.
  How it ends depends on what is at the resolved path: with nothing there,
  \<^verbatim>\<open>SystemExit(1)\<close>; with a directory or a file that cannot be run, the \<^verbatim>\<open>OSError\<close>
  of \<^verbatim>\<open>Popen\<close>, which the launcher does not catch; with an executable whose run
  terminates, \<^verbatim>\<open>SystemExit\<close> with the child's code, after the wait; and with an
  executable that does not terminate, the wait does not come back.
\<close>

theorem import_never_returns:
  "importer_launcher w = launch_importer w
   \<and> (\<forall>u. fst (run w) \<noteq> Returns u)
   \<and> (case fs w (exe_path w) of
         None \<Rightarrow> fst (run w) = Raises (SystemExit 1)
       | Some Directory \<Rightarrow> fst (run w) = Raises OSError
       | Some DataFile \<Rightarrow> fst (run w) = Raises OSError
       | Some (Executable program) \<Rightarrow>
           (case program (os_environ w) of
              None \<Rightarrow> fst (run w) = Blocks
            | Some n \<Rightarrow>
                fst (run w) = Raises (SystemExit n)
                \<and> Call_wait \<in> set (calls (snd (run w)))))"
proof -
  have "importer_launcher w = launch_importer w"
    by (simp add: importer_launcher_def bind_ret)
  moreover have "(\<forall>u. fst (run w) \<noteq> Returns u)
      \<and> (case fs w (exe_path w) of
            None \<Rightarrow> fst (run w) = Raises (SystemExit 1)
          | Some Directory \<Rightarrow> fst (run w) = Raises OSError
          | Some DataFile \<Rightarrow> fst (run w) = Raises OSError
          | Some (Executable program) \<Rightarrow>
              (case program (os_environ w) of
                 None \<Rightarrow> fst (run w) = Blocks
               | Some n \<Rightarrow>
                   fst (run w) = Raises (SystemExit n)
                   \<and> Call_wait \<in> set (calls (snd (run w)))))"
    by (cases w rule: run_cases)
      (auto simp add: run_missing run_refused run_exited run_blocked)
  ultimately show ?thesis
    by simp
qed

theorem import_never_returns_witness:
  "importer_launcher (example_world (Some (Executable example_program)))
     = launch_importer (example_world (Some (Executable example_program)))
   \<and> fst (run (example_world (Some (Executable example_program)))) = Raises (SystemExit 42)
   \<and> Call_wait \<in> set (calls (snd (run (example_world (Some (Executable example_program))))))
   \<and> fst (run (example_world None)) = Raises (SystemExit 1)
   \<and> fst (run (example_world (Some DataFile))) = Raises OSError"
proof -
  have code: "example_program [''UL_SESSION'' \<mapsto> ''7''] = Some 42"
    by (simp add: example_program_def)
  from import_never_returns [of "example_world (Some (Executable example_program))"]
    import_never_returns [of "example_world None"]
    import_never_returns [of "example_world (Some DataFile)"]
  show ?thesis
    by (simp add: exe_path_example fs_example os_environ_example code)
qed

text \<open>
  The claim as written fails where a file that the operating system cannot run is at
  the path: the import ends with the \<^verbatim>\<open>OSError\<close> of \<^verbatim>\<open>Popen\<close>, though the file
  is not missing and nothing was waited for. And where the child never terminates the
  import does not end.
\<close>

theorem import_ends_otherwise:
  "fs (example_world (Some DataFile)) (exe_path (example_world (Some DataFile))) = Some DataFile
   \<and> fst (run (example_world (Some DataFile))) = Raises OSError
   \<and> Call_wait \<notin> set (calls (snd (run (example_world (Some DataFile)))))
   \<and> fst (run (example_world (Some (Executable hanging_program)))) = Blocks"
proof -
  let ?w = "example_world (Some DataFile)"
  let ?v = "example_world (Some (Executable hanging_program))"
  have there: "fs ?w (exe_path ?w) = Some DataFile"
    by (simp add: exe_path_example fs_example)
  have found: "fs ?v (exe_path ?v) = Some (Executable hanging_program)"
    by (simp add: exe_path_example fs_example)
  have never: "hanging_program (os_environ ?v) = None"
    by (simp add: hanging_program_def)
  from run_refused [OF there] run_blocked [OF found never] there show ?thesis
    by simp
qed

subsection \<open>The diagnostic\<close>

text \<open>
  C10. On the run with nothing at the resolved path, standard output holds the text
  \<^verbatim>\<open>Error: Executable not found at\<close>, a space, the resolved path and the newline
  that ends the line; it is the output of the one \<^verbatim>\<open>print\<close> of the run. Nothing is
  written to standard error.
\<close>

theorem diagnostic_on_stdout:
  assumes "fs w (exe_path w) = None"
  shows "stdout (snd (run w)) = ''Error: Executable not found at '' @ exe_path w @ [CHR 0x0A]
       \<and> stderr (snd (run w)) = []
       \<and> length (filter is_print (calls (snd (run w)))) = 1"
  using run_missing [OF assms] by simp

theorem diagnostic_on_stdout_witness:
  "fs (example_world None) (exe_path (example_world None)) = None
   \<and> stdout (snd (run (example_world None)))
       = ''Error: Executable not found at /opt/kicad/plugin/bin/UltralibrarianImporter.exe''
         @ [CHR 0x0A]
   \<and> stderr (snd (run (example_world None))) = []
   \<and> length (filter is_print (calls (snd (run (example_world None))))) = 1"
proof -
  have missing: "fs (example_world None) (exe_path (example_world None)) = None"
    by (simp add: exe_path_example fs_example)
  from diagnostic_on_stdout [OF missing] missing show ?thesis
    by (simp add: exe_path_example)
qed

end
